theory Spec2Isabelle
  imports Main "HOL-Library.Sublist"
begin

section \<open>JavaScript library operations used by the pages\<close>

text \<open>
  Strings are byte lists (the UTF-8 encoding of the JavaScript string); every needle the
  code searches for is ASCII. Times are milliseconds on a logical clock.
\<close>

subsection \<open>\<^verbatim>\<open>Array.prototype.slice(start)\<close>\<close>

text \<open>A negative start counts from the end of the array and is clamped at the front.\<close>

definition slice_from :: "int \<Rightarrow> 'a list \<Rightarrow> 'a list" where
  "slice_from start xs =
     (let len = int (length xs);
          k = (if start < 0 then max (len + start) 0 else min start len)
      in drop (nat k) xs)"

subsection \<open>\<^verbatim>\<open>String.prototype.includes\<close>\<close>

fun str_includes :: "string \<Rightarrow> string \<Rightarrow> bool" where
  "str_includes [] t = (t = [])"
| "str_includes (c # cs) t = (prefix t (c # cs) \<or> str_includes cs t)"

subsection \<open>Timers\<close>

text \<open>
  \<^verbatim>\<open>setTimeout(cb, delay)\<close> queues the callback with its due time. Letting \<open>d\<close>
  milliseconds pass runs every queued callback that has become due, earliest first.
\<close>

record 'cb runtime =
  clock :: nat
  timers :: "(nat \<times> 'cb) list"

definition setTimeout :: "'cb \<Rightarrow> nat \<Rightarrow> ('cb, 'z) runtime_scheme \<Rightarrow> ('cb, 'z) runtime_scheme" where
  "setTimeout cb delay s = s\<lparr>timers := timers s @ [(clock s + delay, cb)]\<rparr>"

definition elapse ::
  "('cb \<Rightarrow> ('cb, 'z) runtime_scheme \<Rightarrow> ('cb, 'z) runtime_scheme) \<Rightarrow> nat \<Rightarrow>
     ('cb, 'z) runtime_scheme \<Rightarrow> ('cb, 'z) runtime_scheme" where
  "elapse fire d s =
     (let now = clock s + d;
          due = filter (\<lambda>p. fst p \<le> now) (timers s);
          rest = filter (\<lambda>p. \<not> fst p \<le> now) (timers s)
      in foldl (\<lambda>s' p. fire (snd p) s') (s\<lparr>clock := now, timers := rest\<rparr>) (sort_key fst due))"

section \<open>GhostTerminal: the agent log stream viewer\<close>

record LogEntry =
  timestamp :: string
  agent :: string
  message :: string
  level :: string

text \<open>
  The component of \<^verbatim>\<open>src/unnamed/part_005\<close>. The parsed payload of a WebSocket message
  is told by its \<^verbatim>\<open>type\<close> field: a history message may lack its \<^verbatim>\<open>logs\<close> field, a log
  message carries one entry of the \<^verbatim>\<open>LogEntry\<close> shape, any other type is ignored.
  \<^verbatim>\<open>JSON.parse\<close> raising is the \<open>Inl\<close> of the event, which the handler's \<^verbatim>\<open>catch\<close>
  swallows. \<^verbatim>\<open>Date.now()\<close> is the clock.
\<close>

datatype js_error = SyntaxError | TypeError

datatype ws_data =
    History "LogEntry list option"
  | Log LogEntry
  | ProcessingStart string
  | ProcessingComplete
  | OtherType

datatype gt_cb = Connect

record platform =
  toISOString :: "nat \<Rightarrow> string"
  ws_throws :: "nat \<Rightarrow> bool"

record ghost_terminal = "gt_cb runtime" +
  logs :: "LogEntry list"
  isConnected :: bool
  activeAgents :: "string set"
  processingTime :: "int option"
  processingStartRef :: "nat option"
  wsRef :: "nat option"
  isOpen :: bool
  connects :: nat
  sockets :: nat
  close_calls :: "nat list"

definition ghost_terminal_init :: ghost_terminal where
  "ghost_terminal_init =
     \<lparr>clock = 0, timers = [], logs = [], isConnected = False, activeAgents = {},
      processingTime = None, processingStartRef = None, wsRef = None, isOpen = False,
      connects = 0, sockets = 0, close_calls = []\<rparr>"

definition addSystemLog :: "platform \<Rightarrow> string \<Rightarrow> string \<Rightarrow> ghost_terminal \<Rightarrow> ghost_terminal" where
  "addSystemLog env msg lvl s =
     s\<lparr>logs := slice_from (- 199) (logs s) @
        [\<lparr>timestamp = toISOString env (clock s), agent = ''SYSTEM'', message = msg, level = lvl\<rparr>]\<rparr>"

text \<open>\<^verbatim>\<open>if (processingStartRef.current)\<close>: null and 0 are falsy.\<close>

definition started :: "ghost_terminal \<Rightarrow> bool" where
  "started s = (case processingStartRef s of None \<Rightarrow> False | Some t \<Rightarrow> t \<noteq> 0)"

definition elapsed_ms :: "ghost_terminal \<Rightarrow> int" where
  "elapsed_ms s = int (clock s) - int (case processingStartRef s of None \<Rightarrow> 0 | Some t \<Rightarrow> t)"

definition onmessage :: "platform \<Rightarrow> ghost_terminal \<Rightarrow> js_error + ws_data \<Rightarrow> ghost_terminal" where
  "onmessage env s ev =
     (case ev of
        Inl _ \<Rightarrow> s
      | Inr (History l) \<Rightarrow> s\<lparr>logs := (case l of None \<Rightarrow> [] | Some ls \<Rightarrow> ls)\<rparr>
      | Inr (Log log) \<Rightarrow>
          (let s1 = s\<lparr>logs := slice_from (- 199) (logs s) @ [log]\<rparr> in
           if str_includes (message log) ''Starting'' then
             (let s2 = s1\<lparr>activeAgents := insert (agent log) (activeAgents s1)\<rparr> in
              if agent log = ''ORCHESTRATOR''
              then s2\<lparr>processingStartRef := Some (clock s), processingTime := None\<rparr>
              else s2)
           else if str_includes (message log) ''complete'' \<or> str_includes (message log) ''Complete'' then
             (let s2 = s1\<lparr>activeAgents := activeAgents s1 - {agent log}\<rparr> in
              if agent log = ''ORCHESTRATOR'' \<and> started s
              then s2\<lparr>processingTime := Some (elapsed_ms s)\<rparr>
              else s2)
           else s1)
      | Inr (ProcessingStart filename) \<Rightarrow>
          (addSystemLog env ([CHR 0xF0, CHR 0x9F, CHR 0x93, CHR 0xA5] @ '' Processing: '' @ filename)
             ''info'' s)\<lparr>processingStartRef := Some (clock s)\<rparr>
      | Inr ProcessingComplete \<Rightarrow>
          (let s1 = addSystemLog env ([CHR 0xE2, CHR 0x9C, CHR 0x85] @ '' Processing complete'')
                      ''success'' s in
           if started s then s1\<lparr>processingTime := Some (elapsed_ms s)\<rparr> else s1)
      | Inr OtherType \<Rightarrow> s)"

text \<open>
  \<^verbatim>\<open>connect\<close>: the constructor may raise, which the \<^verbatim>\<open>try\<close> swallows; otherwise the new
  socket becomes the current one.
\<close>

definition connect :: "platform \<Rightarrow> ghost_terminal \<Rightarrow> ghost_terminal" where
  "connect env s =
     (let s' = s\<lparr>connects := Suc (connects s)\<rparr> in
      if ws_throws env (connects s) then s'
      else s'\<lparr>wsRef := Some (sockets s), sockets := Suc (sockets s)\<rparr>)"

definition onopen :: "platform \<Rightarrow> ghost_terminal \<Rightarrow> ghost_terminal" where
  "onopen env s =
     addSystemLog env ''Connected to FinanceGhost Neural Network'' ''success'' (s\<lparr>isConnected := True\<rparr>)"

definition onclose :: "platform \<Rightarrow> ghost_terminal \<Rightarrow> ghost_terminal" where
  "onclose env s =
     setTimeout Connect 3000
       (addSystemLog env ''Connection lost. Reconnecting...'' ''warning'' (s\<lparr>isConnected := False\<rparr>))"

definition onerror :: "ghost_terminal \<Rightarrow> ghost_terminal" where
  "onerror s = s\<lparr>isConnected := False\<rparr>"

text \<open>
  The effect depends on \<^verbatim>\<open>isOpen\<close>. Its body returns at once when the viewer is closed and
  calls \<^verbatim>\<open>connect\<close> otherwise; only then does it register the cleanup, which calls
  \<^verbatim>\<open>close()\<close> on the current socket.
\<close>

definition cleanup :: "ghost_terminal \<Rightarrow> ghost_terminal" where
  "cleanup s = (case wsRef s of None \<Rightarrow> s | Some w \<Rightarrow> s\<lparr>close_calls := close_calls s @ [w]\<rparr>)"

definition effect :: "platform \<Rightarrow> bool \<Rightarrow> ghost_terminal \<Rightarrow> ghost_terminal" where
  "effect env b s = (if \<not> b then s\<lparr>isOpen := False\<rparr> else connect env (s\<lparr>isOpen := True\<rparr>))"

definition setOpen :: "platform \<Rightarrow> bool \<Rightarrow> ghost_terminal \<Rightarrow> ghost_terminal" where
  "setOpen env b s =
     (if b = isOpen s then s else effect env b (if isOpen s then cleanup s else s))"

datatype gt_event =
    SetOpen bool
  | WsOpen
  | WsMessage "js_error + ws_data"
  | WsClose
  | WsError
  | Elapse nat

fun gt_step :: "platform \<Rightarrow> ghost_terminal \<Rightarrow> gt_event \<Rightarrow> ghost_terminal" where
  "gt_step env s (SetOpen b) = setOpen env b s"
| "gt_step env s WsOpen = onopen env s"
| "gt_step env s (WsMessage m) = onmessage env s m"
| "gt_step env s WsClose = onclose env s"
| "gt_step env s WsError = onerror s"
| "gt_step env s (Elapse d) = elapse (\<lambda>cb. connect env) d s"

text \<open>An environment for running examples: a fixed time stamp, a constructor that never raises.\<close>

definition sample_platform :: platform where
  "sample_platform = \<lparr>toISOString = (\<lambda>t. ''2025-01-01T00:00:00.000Z''), ws_throws = (\<lambda>n. False)\<rparr>"

definition sample_entry :: "string \<Rightarrow> string \<Rightarrow> LogEntry" where
  "sample_entry a m = \<lparr>timestamp = ''2025-01-01T00:00:00.000Z'', agent = a, message = m, level = ''info''\<rparr>"

definition gt_run :: "platform \<Rightarrow> ghost_terminal \<Rightarrow> gt_event list \<Rightarrow> ghost_terminal" where
  "gt_run env s evs = foldl (gt_step env) s evs"

section \<open>Pages\<close>

text \<open>Every page keeps a \<^verbatim>\<open>loading\<close> flag next to its timers.\<close>

record 'cb page = "'cb runtime" +
  loading :: bool

subsection \<open>OpsIntelligencePage\<close>

text \<open>
  The page of \<^verbatim>\<open>src/unnamed/part_001\<close>. Of the backend's records only the fields the
  page inspects are named; the others ride in the record's extension. A pending \<open>SpeakBriefing h n\<close> is the closure that will
  speak the headline \<open>h\<close> and the count \<open>n\<close> of urgent items.
\<close>

record DayBriefing =
  headline :: string

record UrgentWorkItem =
  item_id :: string

datatype ops_cb = HideCelebration | SpeakBriefing string nat

record ('dash, 'brief, 'item) ops_page = "ops_cb page" +
  dashboard :: "'dash option"
  briefing :: "'brief option"
  urgentItems :: "'item list"
  error :: "string option"
  showCelebration :: bool
  celebrations :: nat
  spoken :: "(string \<times> nat) list"

text \<open>
  \<^verbatim>\<open>triggerCelebration\<close> shows the banner, starts one confetti animation (counted in
  \<open>celebrations\<close>) and schedules the banner's removal. \<^verbatim>\<open>handleResolveItem\<close> calls it
  from inside the updater it passes to \<^verbatim>\<open>setUrgentItems\<close>, so it runs as often as React
  runs that updater on the previous list: once in a production build, twice in a
  development build, because \<^verbatim>\<open>src/frontend/src/main.tsx\<close> mounts the application inside
  \<^verbatim>\<open>StrictMode\<close>.
\<close>

datatype build = Production | Development

fun updater_runs :: "build \<Rightarrow> nat" where
  "updater_runs Production = 1"
| "updater_runs Development = 2"

definition triggerCelebration ::
  "('d, 'b, 'i) ops_page \<Rightarrow> ('d, 'b, 'i) ops_page" where
  "triggerCelebration s =
     setTimeout HideCelebration 5000
       (s\<lparr>showCelebration := True, celebrations := Suc (celebrations s)\<rparr>)"

definition handleResolveItem ::
  "build \<Rightarrow> string \<Rightarrow> ('d, 'b, 'z UrgentWorkItem_scheme) ops_page \<Rightarrow>
     ('d, 'b, 'z UrgentWorkItem_scheme) ops_page" where
  "handleResolveItem b ident s =
     (let prev = urgentItems s;
          newItems = filter (\<lambda>item. item_id item \<noteq> ident) prev;
          updater = (\<lambda>s'. if length newItems = 0 \<and> length prev > 0 then triggerCelebration s' else s');
          s' = (updater ^^ updater_runs b) s
      in s'\<lparr>urgentItems := newItems\<rparr>)"

fun ops_fire :: "ops_cb \<Rightarrow> ('d, 'b, 'i) ops_page \<Rightarrow> ('d, 'b, 'i) ops_page" where
  "ops_fire HideCelebration s = s\<lparr>showCelebration := False\<rparr>"
| "ops_fire (SpeakBriefing h n) s = s\<lparr>spoken := spoken s @ [(h, n)]\<rparr>"

text \<open>
  \<^verbatim>\<open>loadData\<close> runs up to its \<^verbatim>\<open>await\<close>, and resumes when \<^verbatim>\<open>Promise.all\<close> settles:
  fulfilled only when all three requests are, rejected as soon as one is. A request's
  outcome is \<open>Inl\<close> of its error or \<open>Inr\<close> of its body; the third body is the
  \<^verbatim>\<open>items\<close> array of the urgent-items response.
\<close>

definition loadData_start :: "('d, 'b, 'i) ops_page \<Rightarrow> ('d, 'b, 'i) ops_page" where
  "loadData_start s = s\<lparr>loading := True, error := None\<rparr>"

definition loadData_settle ::
  "('e + 'd) \<Rightarrow> ('e + 'z DayBriefing_scheme option) \<Rightarrow> ('e + 'i list) \<Rightarrow>
     ('d, 'z DayBriefing_scheme, 'i) ops_page \<Rightarrow> ('d, 'z DayBriefing_scheme, 'i) ops_page" where
  "loadData_settle r1 r2 r3 s =
     (case (r1, r2, r3) of
        (Inr dashboardData, Inr briefingData, Inr urgentItemsData) \<Rightarrow>
          (let s1 = s\<lparr>dashboard := Some dashboardData, briefing := briefingData,
                      urgentItems := urgentItemsData\<rparr>;
               s2 = (case briefingData of
                       None \<Rightarrow> s1
                     | Some b \<Rightarrow>
                         if headline b \<noteq> []
                         then setTimeout (SpeakBriefing (headline b) (length urgentItemsData)) 1000 s1
                         else s1)
           in s2)
      | _ \<Rightarrow> s\<lparr>error := Some ''Failed to load data. Is the backend running?''\<rparr>)
     \<lparr>loading := False\<rparr>"

definition loadData ::
  "('e + 'd) \<Rightarrow> ('e + 'z DayBriefing_scheme option) \<Rightarrow> ('e + 'i list) \<Rightarrow>
     ('d, 'z DayBriefing_scheme, 'i) ops_page \<Rightarrow> ('d, 'z DayBriefing_scheme, 'i) ops_page" where
  "loadData r1 r2 r3 s = loadData_settle r1 r2 r3 (loadData_start s)"

definition ops_page_init :: "('d, 'b, 'i) ops_page" where
  "ops_page_init =
     \<lparr>clock = 0, timers = [], loading = True, dashboard = None, briefing = None,
      urgentItems = [], error = None, showCelebration = False, celebrations = 0, spoken = []\<rparr>"

text \<open>What the page renders: the spinner, the error panel with its message, or the content.\<close>

datatype ops_view = Spinner | ErrorPanel string | Content

definition ops_render :: "('d, 'b, 'i) ops_page \<Rightarrow> ops_view" where
  "ops_render s =
     (if loading s then Spinner
      else case error s of
             None \<Rightarrow> Content
           | Some m \<Rightarrow> if m \<noteq> [] then ErrorPanel m else Content)"

subsection \<open>Copy to clipboard (VendorsPage and InvoicesPage)\<close>

text \<open>
  Both pages define the same \<^verbatim>\<open>copyToClipboard\<close> over their own \<^verbatim>\<open>copied\<close> flag; the
  only timer callback of either page is \<^verbatim>\<open>() => setCopied(false)\<close>.
\<close>

datatype copy_cb = ResetCopied

record clipboard_page = "copy_cb page" +
  copied :: bool
  clipboard :: "string option"

definition copyToClipboard ::
  "string \<Rightarrow> 'z clipboard_page_scheme \<Rightarrow> 'z clipboard_page_scheme" where
  "copyToClipboard text s = setTimeout ResetCopied 2000 (s\<lparr>clipboard := Some text, copied := True\<rparr>)"

fun copy_fire :: "copy_cb \<Rightarrow> 'z clipboard_page_scheme \<Rightarrow> 'z clipboard_page_scheme" where
  "copy_fire ResetCopied s = s\<lparr>copied := False\<rparr>"

definition wait :: "nat \<Rightarrow> 'z clipboard_page_scheme \<Rightarrow> 'z clipboard_page_scheme" where
  "wait d s = elapse copy_fire d s"

definition clipboard_page_init :: clipboard_page where
  "clipboard_page_init = \<lparr>clock = 0, timers = [], loading = True, copied = False, clipboard = None\<rparr>"

subsection \<open>VendorsPage\<close>

record ('an, 'op) vendors_page = clipboard_page +
  analysis :: "'an option"
  opportunities :: "'op list"

definition fetchData_start :: "('an, 'op) vendors_page \<Rightarrow> ('an, 'op) vendors_page" where
  "fetchData_start s = s\<lparr>loading := True\<rparr>"

text \<open>The second body is the \<^verbatim>\<open>opportunities\<close> array of the negotiations response.\<close>

definition fetchData_settle ::
  "('e + 'an) \<Rightarrow> ('e + 'op list) \<Rightarrow> ('an, 'op) vendors_page \<Rightarrow> ('an, 'op) vendors_page" where
  "fetchData_settle r1 r2 s =
     (case (r1, r2) of
        (Inr analysisData, Inr opportunitiesData) \<Rightarrow>
          s\<lparr>analysis := Some analysisData, opportunities := opportunitiesData\<rparr>
      | _ \<Rightarrow> s)
     \<lparr>loading := False\<rparr>"

definition fetchData ::
  "('e + 'an) \<Rightarrow> ('e + 'op list) \<Rightarrow> ('an, 'op) vendors_page \<Rightarrow> ('an, 'op) vendors_page" where
  "fetchData r1 r2 s = fetchData_settle r1 r2 (fetchData_start s)"

definition vendors_page_init :: "('an, 'op) vendors_page" where
  "vendors_page_init =
     \<lparr>clock = 0, timers = [], loading = True, copied = False, clipboard = None,
      analysis = None, opportunities = []\<rparr>"

subsection \<open>AuditPage\<close>

record audit_page =
  startDate :: string
  endDate :: string
  downloading :: bool

record http_get =
  url :: string
  params :: "(string \<times> string) list"
  responseType :: "string option"

text \<open>The request \<^verbatim>\<open>downloadAuditPack\<close> issues; an empty string is falsy.\<close>

definition downloadAuditPack_request :: "audit_page \<Rightarrow> http_get" where
  "downloadAuditPack_request s =
     (let params0 = [];
          params1 = (if startDate s \<noteq> [] then params0 @ [(''start_date'', startDate s)] else params0);
          params2 = (if endDate s \<noteq> [] then params1 @ [(''end_date'', endDate s)] else params1)
      in \<lparr>url = ''/audit/download'', params = params2, responseType = Some ''blob''\<rparr>)"

subsection \<open>InvoicesPage\<close>

text \<open>
  A JSON value; \<^verbatim>\<open>JSON.parse\<close> itself is the platform's and is a parameter of the
  parsers, raising \<open>SyntaxError\<close> as \<open>Inl\<close>.
\<close>

datatype 'n json =
    JNull
  | JBool bool
  | JNumber 'n
  | JString string
  | JArray "'n json list"
  | JObject "(string \<times> 'n json) list"

fun Array_isArray :: "'n json \<Rightarrow> bool" where
  "Array_isArray (JArray xs) = True"
| "Array_isArray _ = False"

fun array_elements :: "'n json \<Rightarrow> 'n json list" where
  "array_elements (JArray xs) = xs"
| "array_elements _ = []"

definition try_catch :: "('e + 'a) \<Rightarrow> ('e \<Rightarrow> 'e + 'a) \<Rightarrow> 'e + 'a" where
  "try_catch body handler = (case body of Inl e \<Rightarrow> handler e | Inr v \<Rightarrow> Inr v)"

definition parseErrors :: "(string \<Rightarrow> js_error + 'n json) \<Rightarrow> string \<Rightarrow> js_error + 'n json list" where
  "parseErrors JSON_parse errorsJson =
     try_catch
       (case JSON_parse errorsJson of
          Inl e \<Rightarrow> Inl e
        | Inr parsed \<Rightarrow> Inr (if Array_isArray parsed then array_elements parsed else []))
       (\<lambda>_. Inr [])"

definition parseItems :: "(string \<Rightarrow> js_error + 'n json) \<Rightarrow> string \<Rightarrow> js_error + 'n json list" where
  "parseItems JSON_parse itemsJson =
     try_catch
       (case JSON_parse itemsJson of
          Inl e \<Rightarrow> Inl e
        | Inr parsed \<Rightarrow> Inr (if Array_isArray parsed then array_elements parsed else []))
       (\<lambda>_. Inr [])"

text \<open>
  The table filter. \<^verbatim>\<open>?.\<close> yields \<^verbatim>\<open>undefined\<close> (here \<open>None\<close>) on a null or absent
  field; \<^verbatim>\<open>||\<close> and \<^verbatim>\<open>&&\<close> return one of their operands by the truthiness of the first,
  and \<^verbatim>\<open>filter\<close> keeps the truthy. \<^verbatim>\<open>toLowerCase\<close> is the platform's and a parameter.
\<close>

record Invoice =
  invoice_number :: "string option"
  vendor_name :: "string option"
  status :: string

definition truthy :: "bool option \<Rightarrow> bool" where
  "truthy v = (case v of None \<Rightarrow> False | Some b \<Rightarrow> b)"

definition js_or :: "bool option \<Rightarrow> bool option \<Rightarrow> bool option" where
  "js_or a b = (if truthy a then a else b)"

definition js_and :: "bool option \<Rightarrow> bool option \<Rightarrow> bool option" where
  "js_and a b = (if truthy a then b else a)"

definition filteredInvoices ::
  "(string \<Rightarrow> string) \<Rightarrow> 'z Invoice_scheme list \<Rightarrow> string \<Rightarrow> string \<Rightarrow> 'z Invoice_scheme list" where
  "filteredInvoices toLowerCase invoices search statusFilter =
     filter (\<lambda>inv.
       (let matchesSearch =
              js_or (map_option (\<lambda>n. str_includes (toLowerCase n) (toLowerCase search)) (invoice_number inv))
                    (map_option (\<lambda>v. str_includes (toLowerCase v) (toLowerCase search)) (vendor_name inv));
            matchesStatus = (statusFilter = ''all'' \<or> status inv = statusFilter)
        in truthy (js_and matchesSearch (Some matchesStatus))))
       invoices"

text \<open>The ASCII part of \<^verbatim>\<open>toLowerCase\<close>, for running the filter on examples.\<close>

definition ascii_lower :: "string \<Rightarrow> string" where
  "ascii_lower s =
     map (\<lambda>c. let n = (of_char c :: nat) in if 65 \<le> n \<and> n \<le> 90 then char_of (n + 32) else c) s"

section \<open>The log buffer\<close>

lemma slice_from_neg: "0 < k \<Longrightarrow> slice_from (- int k) xs = drop (length xs - k) xs"
  by (auto simp: slice_from_def Let_def max_def nat_diff_distrib')

lemma slice_199: "slice_from (- 199) xs = drop (length xs - 199) xs"
  using slice_from_neg [of 199 xs] by simp

lemma logs_Log: "logs (onmessage env s (Inr (Log e))) = slice_from (- 199) (logs s) @ [e]"
  by (simp add: onmessage_def Let_def)

lemma logs_History: "logs (onmessage env s (Inr (History l))) = (case l of None \<Rightarrow> [] | Some ls \<Rightarrow> ls)"
  by (simp add: onmessage_def)

lemma last200_step:
  "drop (length xs - 199) xs @ [e] = drop (length (xs @ [e]) - 200) (xs @ [e])"
  by (simp add: Suc_diff_le)

lemma drop_last_trim:
  "drop (length (drop (length xs - n) xs @ ys) - n) (drop (length xs - n) xs @ ys)
     = drop (length (xs @ ys) - n) (xs @ ys)"
  by (cases "length xs \<le> n") (auto simp: add.commute)

lemma logs_fold:
  "es \<noteq> [] \<Longrightarrow>
   logs (foldl (onmessage env) s (map (\<lambda>e. Inr (Log e)) es))
     = drop (length (logs s @ es) - 200) (logs s @ es)"
proof (induction es rule: rev_induct)
  case Nil
  then show ?case by simp
next
  case (snoc e es)
  let ?w = "drop (length (logs s @ es) - 200) (logs s @ es)"
  show ?case
  proof (cases "es = []")
    case True
    then show ?thesis
      using last200_step [of "logs s" e] by (simp add: logs_Log slice_199)
  next
    case False
    have IH: "logs (foldl (onmessage env) s (map (\<lambda>e. Inr (Log e)) es)) = ?w"
      by (rule snoc.IH [OF False])
    have "logs (foldl (onmessage env) s (map (\<lambda>e. Inr (Log e)) (es @ [e])))
            = drop (length ?w - 199) ?w @ [e]"
      by (simp only: map_append list.map foldl_append foldl.simps logs_Log slice_199 IH)
    also have "\<dots> = drop (length (?w @ [e]) - 200) (?w @ [e])"
      by (rule last200_step)
    also have "\<dots> = drop (length ((logs s @ es) @ [e]) - 200) ((logs s @ es) @ [e])"
      by (rule drop_last_trim)
    finally show ?thesis by simp
  qed
qed

lemma gt_run_messages:
  "gt_run env s (map WsMessage ms) = foldl (onmessage env) s ms"
  by (induction ms arbitrary: s) (simp_all add: gt_run_def)

lemma gt_run_Cons: "gt_run env s (ev # evs) = gt_run env (gt_step env s ev) evs"
  by (simp add: gt_run_def)

lemma gt_run_append: "gt_run env s (evs @ evs') = gt_run env (gt_run env s evs) evs'"
  by (simp add: gt_run_def)

lemma logs_history_then_logs:
  "es \<noteq> [] \<Longrightarrow>
   logs (gt_run env s (WsMessage (Inr (History (Some h))) # map (\<lambda>e. WsMessage (Inr (Log e))) es))
     = drop (length (h @ es) - 200) (h @ es)"
proof -
  assume ne: "es \<noteq> []"
  have m: "map (\<lambda>e. WsMessage (Inr (Log e))) es = map WsMessage (map (\<lambda>e. Inr (Log e)) es)"
    by simp
  show ?thesis
    unfolding gt_run_Cons m gt_run_messages
    by (simp add: logs_fold [OF ne] logs_History)
qed

text \<open>
  C1. A \<^verbatim>\<open>history\<close> message replaces the whole buffer by the entries it carries. A
  \<^verbatim>\<open>log\<close> message appends its entry and keeps the last 200 of the result. After a history
  message with any number of entries and then 205 log messages, the buffer holds exactly
  the last 200 of those log entries, in the order they arrived.
\<close>

theorem log_buffer_keeps_latest_200:
  "logs (onmessage env s (Inr (History (Some h)))) = h \<and>
   logs (onmessage env s (Inr (Log e))) = drop (length (logs s @ [e]) - 200) (logs s @ [e]) \<and>
   length (logs (onmessage env s (Inr (Log e)))) \<le> max 200 (length (logs s)) \<and>
   (length es = 205 \<longrightarrow>
      logs (gt_run env s (WsMessage (Inr (History (Some h))) # map (\<lambda>e. WsMessage (Inr (Log e))) es))
        = drop 5 es \<and>
      length (logs (gt_run env s
        (WsMessage (Inr (History (Some h))) # map (\<lambda>e. WsMessage (Inr (Log e))) es))) = 200)"
proof -
  have a: "logs (onmessage env s (Inr (History (Some h)))) = h"
    by (simp add: logs_History)
  have b: "logs (onmessage env s (Inr (Log e))) = drop (length (logs s @ [e]) - 200) (logs s @ [e])"
    using last200_step [of "logs s" e] by (simp add: logs_Log slice_199)
  have c: "length (logs (onmessage env s (Inr (Log e)))) \<le> max 200 (length (logs s))"
    by (simp add: logs_Log slice_199)
  have d: "logs (gt_run env s (WsMessage (Inr (History (Some h))) # map (\<lambda>e. WsMessage (Inr (Log e))) es))
             = drop 5 es"
    if "length es = 205"
  proof -
    from that have ne: "es \<noteq> []" by auto
    show ?thesis using that by (simp add: logs_history_then_logs [OF ne])
  qed
  from a b c d show ?thesis by simp
qed

text \<open>
  An instance: a history of two entries, then 205 log entries numbered by the length of
  their message.
\<close>

theorem log_buffer_keeps_latest_200_witness:
  "length (map (\<lambda>i. sample_entry ''tax_agent'' (replicate i CHR ''x'')) [0..<205]) = 205 \<and>
   logs (gt_run sample_platform ghost_terminal_init
     (WsMessage (Inr (History (Some [sample_entry ''SYSTEM'' ''a'', sample_entry ''SYSTEM'' ''b''])))
        # map (\<lambda>e. WsMessage (Inr (Log e)))
            (map (\<lambda>i. sample_entry ''tax_agent'' (replicate i CHR ''x'')) [0..<205])))
     = map (\<lambda>i. sample_entry ''tax_agent'' (replicate i CHR ''x'')) [5..<205]"
proof -
  let ?es = "map (\<lambda>i. sample_entry ''tax_agent'' (replicate i CHR ''x'')) [0..<205]"
  have len: "length ?es = 205" by simp
  have dr: "drop 5 ?es = map (\<lambda>i. sample_entry ''tax_agent'' (replicate i CHR ''x'')) [5..<205]"
    by (simp only: drop_map drop_upt) simp
  from log_buffer_keeps_latest_200
    [of sample_platform ghost_terminal_init
        "[sample_entry ''SYSTEM'' ''a'', sample_entry ''SYSTEM'' ''b'']" _ ?es]
  have "logs (gt_run sample_platform ghost_terminal_init
     (WsMessage (Inr (History (Some [sample_entry ''SYSTEM'' ''a'', sample_entry ''SYSTEM'' ''b''])))
        # map (\<lambda>e. WsMessage (Inr (Log e))) ?es)) = drop 5 ?es"
    using len by blast
  with len dr show ?thesis by (simp only:) 
qed

section \<open>The active agents\<close>

lemma str_includes_sublist: "str_includes s t \<longleftrightarrow> sublist t s"
  by (induction s) (auto simp: sublist_Cons_right)

text \<open>
  C2, as stated, fails: an entry whose text contains \<^verbatim>\<open>complete\<close> does not remove its
  agent when the text also contains \<^verbatim>\<open>Starting\<close>, because the handler tests
  \<^verbatim>\<open>Starting\<close> first and only otherwise looks for \<^verbatim>\<open>complete\<close>. Here the agent
  is active after its first entry and still active after the second.
\<close>

theorem active_agent_complete_counterexample:
  "str_includes ''Starting completeness check'' ''complete'' \<and>
   ''tax_agent'' \<in> activeAgents (gt_run sample_platform ghost_terminal_init
      [WsMessage (Inr (Log (sample_entry ''tax_agent'' ''Starting GST validation'')))]) \<and>
   ''tax_agent'' \<in> activeAgents (gt_run sample_platform ghost_terminal_init
      [WsMessage (Inr (Log (sample_entry ''tax_agent'' ''Starting GST validation''))),
       WsMessage (Inr (Log (sample_entry ''tax_agent'' ''Starting completeness check'')))])"
  by (simp add: gt_run_def onmessage_def ghost_terminal_init_def sample_entry_def Let_def)

text \<open>
  C2, amended. A log entry whose text contains \<^verbatim>\<open>Starting\<close> puts its agent in the
  active set. An entry whose text contains \<^verbatim>\<open>complete\<close> or \<^verbatim>\<open>Complete\<close> and does not
  contain \<^verbatim>\<open>Starting\<close> takes its agent out. An entry whose text contains neither
  \<^verbatim>\<open>complete\<close> nor \<^verbatim>\<open>Complete\<close> (for instance only \<^verbatim>\<open>COMPLETED\<close>) removes nothing.
  No entry changes the membership of any other agent.
\<close>

theorem active_agents_tracking:
  "(str_includes (message e) ''Starting'' \<longrightarrow>
      agent e \<in> activeAgents (onmessage env s (Inr (Log e)))) \<and>
   (\<not> str_includes (message e) ''Starting'' \<and>
      (str_includes (message e) ''complete'' \<or> str_includes (message e) ''Complete'') \<longrightarrow>
      agent e \<notin> activeAgents (onmessage env s (Inr (Log e)))) \<and>
   (\<not> str_includes (message e) ''complete'' \<and> \<not> str_includes (message e) ''Complete'' \<longrightarrow>
      activeAgents s \<subseteq> activeAgents (onmessage env s (Inr (Log e)))) \<and>
   (a \<noteq> agent e \<longrightarrow>
      (a \<in> activeAgents (onmessage env s (Inr (Log e))) \<longleftrightarrow> a \<in> activeAgents s))"
  by (auto simp: onmessage_def Let_def)

text \<open>
  An instance of each part: the agent starts, an upper-case \<^verbatim>\<open>COMPLETED\<close> leaves it
  active, \<^verbatim>\<open>Validation complete\<close> removes it, and another agent stays untouched.
\<close>

theorem active_agents_tracking_witness:
  "str_includes ''Starting GST validation'' ''Starting'' \<and>
   ''tax_agent'' \<in> activeAgents (onmessage sample_platform ghost_terminal_init
      (Inr (Log (sample_entry ''tax_agent'' ''Starting GST validation'')))) \<and>
   \<not> str_includes ''VALIDATION COMPLETED'' ''complete'' \<and>
   \<not> str_includes ''VALIDATION COMPLETED'' ''Complete'' \<and>
   {''tax_agent'', ''invoice_agent''} \<subseteq>
      activeAgents (onmessage sample_platform
        (ghost_terminal_init\<lparr>activeAgents := {''tax_agent'', ''invoice_agent''}\<rparr>)
        (Inr (Log (sample_entry ''tax_agent'' ''VALIDATION COMPLETED'')))) \<and>
   \<not> str_includes ''Validation complete'' ''Starting'' \<and>
   str_includes ''Validation complete'' ''complete'' \<and>
   ''tax_agent'' \<notin> activeAgents (onmessage sample_platform
        (ghost_terminal_init\<lparr>activeAgents := {''tax_agent'', ''invoice_agent''}\<rparr>)
        (Inr (Log (sample_entry ''tax_agent'' ''Validation complete'')))) \<and>
   ''invoice_agent'' \<noteq> ''tax_agent'' \<and>
   ''invoice_agent'' \<in> activeAgents (onmessage sample_platform
        (ghost_terminal_init\<lparr>activeAgents := {''tax_agent'', ''invoice_agent''}\<rparr>)
        (Inr (Log (sample_entry ''tax_agent'' ''Validation complete''))))"
  using
    active_agents_tracking [of "sample_entry ''tax_agent'' ''Starting GST validation''"
      sample_platform ghost_terminal_init "''invoice_agent''"]
    active_agents_tracking [of "sample_entry ''tax_agent'' ''VALIDATION COMPLETED''"
      sample_platform "ghost_terminal_init\<lparr>activeAgents := {''tax_agent'', ''invoice_agent''}\<rparr>"
      "''invoice_agent''"]
    active_agents_tracking [of "sample_entry ''tax_agent'' ''Validation complete''"
      sample_platform "ghost_terminal_init\<lparr>activeAgents := {''tax_agent'', ''invoice_agent''}\<rparr>"
      "''invoice_agent''"]
  by (simp add: sample_entry_def ghost_terminal_init_def)

section \<open>Reconnecting\<close>

lemma onclose_timers: "timers (onclose env s) = timers s @ [(clock s + 3000, Connect)]"
  by (simp add: onclose_def setTimeout_def addSystemLog_def)

lemma close_then_wait:
  assumes "timers s = []"
  shows "connects (gt_run env s [WsClose, Elapse d])
           = (if 3000 \<le> d then Suc (connects s) else connects s)"
    and "timers (gt_run env s [WsClose, Elapse 3000]) = []"
    and "clock (gt_run env s [WsClose, Elapse 3000]) = clock s + 3000"
    and "\<forall>k. \<not> ws_throws env k \<Longrightarrow> sockets (gt_run env s [WsClose, Elapse 3000]) = Suc (sockets s)"
  using assms
  by (simp_all add: gt_run_def onclose_def setTimeout_def addSystemLog_def elapse_def
        connect_def Let_def)

lemma reconnect_cycles:
  "timers s = [] \<Longrightarrow>
   timers (gt_run env s (concat (replicate n [WsClose, Elapse 3000]))) = [] \<and>
   connects (gt_run env s (concat (replicate n [WsClose, Elapse 3000]))) = connects s + n \<and>
   clock (gt_run env s (concat (replicate n [WsClose, Elapse 3000]))) = clock s + 3000 * n \<and>
   ((\<forall>k. \<not> ws_throws env k) \<longrightarrow>
      sockets (gt_run env s (concat (replicate n [WsClose, Elapse 3000]))) = sockets s + n)"
proof (induction n arbitrary: s)
  case 0
  then show ?case by (simp add: gt_run_def)
next
  case (Suc n)
  let ?s1 = "gt_run env s [WsClose, Elapse 3000]"
  have split: "gt_run env s (concat (replicate (Suc n) [WsClose, Elapse 3000]))
                 = gt_run env ?s1 (concat (replicate n [WsClose, Elapse 3000]))"
    by (simp add: gt_run_def)
  note c = close_then_wait [OF Suc.prems, of env]
  from Suc.IH [OF c(2)] c(1) [of 3000] c(3,4) show ?case
    unfolding split by auto
qed

lemma opened_state:
  "timers (setOpen env True ghost_terminal_init) = []"
  "connects (setOpen env True ghost_terminal_init) = 1"
  "clock (setOpen env True ghost_terminal_init) = 0"
  "\<not> ws_throws env 0 \<Longrightarrow> sockets (setOpen env True ghost_terminal_init) = 1"
  by (simp_all add: setOpen_def effect_def connect_def ghost_terminal_init_def Let_def)

text \<open>
  C3 fails on the code. The viewer is opened and connects (socket 0); the connection
  drops, which schedules a reconnect; one second later the viewer is closed, and the
  cleanup only calls \<^verbatim>\<open>close()\<close> on socket 0; two seconds after that the timer fires and
  a second socket is constructed while the viewer is closed. Closing a connected viewer
  ends the same way, since the cleanup's own \<^verbatim>\<open>close()\<close> leads to \<^verbatim>\<open>onclose\<close>.
\<close>

theorem reconnect_fires_after_viewer_closed:
  "\<not> isOpen (gt_run sample_platform ghost_terminal_init
       [SetOpen True, WsOpen, WsClose, Elapse 1000, SetOpen False]) \<and>
   sockets (gt_run sample_platform ghost_terminal_init
       [SetOpen True, WsOpen, WsClose, Elapse 1000, SetOpen False]) = 1 \<and>
   timers (gt_run sample_platform ghost_terminal_init
       [SetOpen True, WsOpen, WsClose, Elapse 1000, SetOpen False]) = [(3000, Connect)] \<and>
   \<not> isOpen (gt_run sample_platform ghost_terminal_init
       [SetOpen True, WsOpen, WsClose, Elapse 1000, SetOpen False, Elapse 2000]) \<and>
   sockets (gt_run sample_platform ghost_terminal_init
       [SetOpen True, WsOpen, WsClose, Elapse 1000, SetOpen False, Elapse 2000]) = 2 \<and>
   sockets (gt_run sample_platform ghost_terminal_init
       [SetOpen True, WsOpen, SetOpen False, WsClose, Elapse 3000]) = 2"
  by (simp add: gt_run_def ghost_terminal_init_def sample_platform_def setOpen_def effect_def
        connect_def cleanup_def onopen_def onclose_def addSystemLog_def setTimeout_def
        elapse_def slice_from_def Let_def)

text \<open>
  C4. Every \<^verbatim>\<open>onclose\<close>, in whatever state, queues one \<^verbatim>\<open>connect\<close> due exactly 3000 ms
  later; with nothing else pending, \<^verbatim>\<open>connect\<close> runs once the 3000 ms have passed and
  not before. After opening the viewer, \<open>n\<close> rounds of disconnecting and waiting 3000 ms
  make \<open>n\<close> further connection attempts, for every \<open>n\<close>, taking \<open>3000 * n\<close> ms in all; each
  attempt constructs a socket when the constructor does not raise.
\<close>

theorem reconnect_fixed_delay_unbounded:
  "timers (onclose env s) = timers s @ [(clock s + 3000, Connect)] \<and>
   (timers s = [] \<longrightarrow>
      connects (gt_run env s [WsClose, Elapse d])
        = (if 3000 \<le> d then Suc (connects s) else connects s)) \<and>
   connects (gt_run env ghost_terminal_init
      (SetOpen True # concat (replicate n [WsClose, Elapse 3000]))) = Suc n \<and>
   clock (gt_run env ghost_terminal_init
      (SetOpen True # concat (replicate n [WsClose, Elapse 3000]))) = 3000 * n \<and>
   ((\<forall>k. \<not> ws_throws env k) \<longrightarrow>
      sockets (gt_run env ghost_terminal_init
        (SetOpen True # concat (replicate n [WsClose, Elapse 3000]))) = Suc n)"
proof -
  have t: "timers (setOpen env True ghost_terminal_init) = []"
    by (rule opened_state)
  have "sockets (gt_run env ghost_terminal_init
          (SetOpen True # concat (replicate n [WsClose, Elapse 3000]))) = Suc n"
    if "\<forall>k. \<not> ws_throws env k"
    using that reconnect_cycles [OF t, of env n] opened_state(4) [of env]
    by (simp add: gt_run_Cons)
  then show ?thesis
    using reconnect_cycles [OF t, of env n] close_then_wait(1) [of s env d]
    by (simp add: gt_run_Cons onclose_timers opened_state)
qed

text \<open>
  An instance: from the opened viewer, a wait of 2999 ms after a disconnect attempts
  nothing, and three rounds make the fourth attempt and the fourth socket at 9000 ms.
\<close>

theorem reconnect_fixed_delay_unbounded_witness:
  "timers (setOpen sample_platform True ghost_terminal_init) = [] \<and>
   connects (gt_run sample_platform (setOpen sample_platform True ghost_terminal_init)
      [WsClose, Elapse 2999]) = 1 \<and>
   (\<forall>k. \<not> ws_throws sample_platform k) \<and>
   connects (gt_run sample_platform ghost_terminal_init
      (SetOpen True # concat (replicate 3 [WsClose, Elapse 3000]))) = 4 \<and>
   clock (gt_run sample_platform ghost_terminal_init
      (SetOpen True # concat (replicate 3 [WsClose, Elapse 3000]))) = 9000 \<and>
   sockets (gt_run sample_platform ghost_terminal_init
      (SetOpen True # concat (replicate 3 [WsClose, Elapse 3000]))) = 4"
proof -
  have t: "timers (setOpen sample_platform True ghost_terminal_init) = []"
    by (rule opened_state)
  have c: "connects (setOpen sample_platform True ghost_terminal_init) = 1"
    by (rule opened_state)
  have w: "\<forall>k. \<not> ws_throws sample_platform k"
    by (simp add: sample_platform_def)
  from reconnect_fixed_delay_unbounded
    [of sample_platform "setOpen sample_platform True ghost_terminal_init" 2999 3]
  show ?thesis using t c w by simp
qed

section \<open>Resolving urgent items\<close>

lemma funpow_cond: "((\<lambda>x. if c then f x else x) ^^ n) s = (if c then (f ^^ n) s else s)"
proof (cases c)
  case True
  then show ?thesis by simp
next
  case False
  have "((\<lambda>x. x) ^^ n) s = s" by (induction n) simp_all
  with False show ?thesis by simp
qed

lemma triggerCelebration_funpow:
  "celebrations ((triggerCelebration ^^ n) s) = celebrations s + n \<and>
   urgentItems ((triggerCelebration ^^ n) s) = urgentItems s \<and>
   (showCelebration ((triggerCelebration ^^ n) s) \<longleftrightarrow> (if n = 0 then showCelebration s else True))"
  by (induction n) (simp_all add: triggerCelebration_def setTimeout_def)

text \<open>
  In either build a resolve leaves the items with another id, in order. The animations
  it starts are as many as the updater's runs when it empties a non-empty list, and none
  otherwise: none on an empty list, none while items remain.
\<close>

lemma handleResolveItem_effects:
  "urgentItems (handleResolveItem b i s) = filter (\<lambda>item. item_id item \<noteq> i) (urgentItems s) \<and>
   celebrations (handleResolveItem b i s) =
     celebrations s +
       (if filter (\<lambda>item. item_id item \<noteq> i) (urgentItems s) = [] \<and> urgentItems s \<noteq> []
        then updater_runs b else 0) \<and>
   (showCelebration (handleResolveItem b i s) \<longleftrightarrow>
      (if filter (\<lambda>item. item_id item \<noteq> i) (urgentItems s) = [] \<and> urgentItems s \<noteq> []
       then True else showCelebration s))"
proof -
  have n: "updater_runs b \<noteq> 0" by (cases b) simp_all
  show ?thesis
    using n triggerCelebration_funpow [of "updater_runs b" s]
    by (simp add: handleResolveItem_def Let_def funpow_cond)
qed

text \<open>
  C5 fails on the code in the development build. The list holds one item and that item
  is resolved: the list becomes empty and the banner shows, but the updater runs twice,
  so \<^verbatim>\<open>triggerCelebration\<close> runs twice: two animations start and two removals of the
  banner are queued. The production build, on the same input, starts one.
\<close>

theorem resolve_last_item_celebrates_twice:
  "urgentItems (handleResolveItem Development ''u2''
      ((ops_page_init :: (string, DayBriefing, UrgentWorkItem) ops_page)
         \<lparr>loading := False, urgentItems := [\<lparr>item_id = ''u2''\<rparr>]\<rparr>)) = [] \<and>
   showCelebration (handleResolveItem Development ''u2''
      ((ops_page_init :: (string, DayBriefing, UrgentWorkItem) ops_page)
         \<lparr>loading := False, urgentItems := [\<lparr>item_id = ''u2''\<rparr>]\<rparr>)) \<and>
   celebrations (handleResolveItem Development ''u2''
      ((ops_page_init :: (string, DayBriefing, UrgentWorkItem) ops_page)
         \<lparr>loading := False, urgentItems := [\<lparr>item_id = ''u2''\<rparr>]\<rparr>)) = 2 \<and>
   timers (handleResolveItem Development ''u2''
      ((ops_page_init :: (string, DayBriefing, UrgentWorkItem) ops_page)
         \<lparr>loading := False, urgentItems := [\<lparr>item_id = ''u2''\<rparr>]\<rparr>))
     = [(5000, HideCelebration), (5000, HideCelebration)] \<and>
   celebrations (handleResolveItem Production ''u2''
      ((ops_page_init :: (string, DayBriefing, UrgentWorkItem) ops_page)
         \<lparr>loading := False, urgentItems := [\<lparr>item_id = ''u2''\<rparr>]\<rparr>)) = 1"
  by (simp add: handleResolveItem_def triggerCelebration_def setTimeout_def ops_page_init_def
        Let_def numeral_2_eq_2)

section \<open>The audit pack request\<close>

text \<open>
  C6. The request carries both \<^verbatim>\<open>start_date\<close> and \<^verbatim>\<open>end_date\<close> exactly when both dates
  are non-empty, and no parameter of any request is the empty string. Each parameter is
  decided by its own date: it is present, with the date as its value, exactly when that
  date is non-empty; no other parameter is sent.
\<close>

theorem audit_download_date_params:
  "((map_of (params (downloadAuditPack_request s)) ''start_date'' \<noteq> None \<and>
     map_of (params (downloadAuditPack_request s)) ''end_date'' \<noteq> None)
      = (startDate s \<noteq> [] \<and> endDate s \<noteq> [])) \<and>
   [] \<notin> snd ` set (params (downloadAuditPack_request s)) \<and>
   map_of (params (downloadAuditPack_request s)) ''start_date'' =
     (if startDate s = [] then None else Some (startDate s)) \<and>
   map_of (params (downloadAuditPack_request s)) ''end_date'' =
     (if endDate s = [] then None else Some (endDate s)) \<and>
   fst ` set (params (downloadAuditPack_request s)) \<subseteq> {''start_date'', ''end_date''} \<and>
   url (downloadAuditPack_request s) = ''/audit/download'' \<and>
   responseType (downloadAuditPack_request s) = Some ''blob''"
  by (auto simp: downloadAuditPack_request_def Let_def)

section \<open>Loads through \<^verbatim>\<open>Promise.all\<close>\<close>

text \<open>
  C7. When one of the three requests of the Ops Intelligence load fails, the load leaves
  the state as it was but for the loading flag and the error message: dashboard,
  briefing and urgent items are those from before the load, and the page renders the
  error panel with the generic message. When one of the two requests of the Vendors load
  fails, only the loading flag changes: analysis and opportunities are those from before.
\<close>

theorem promise_all_failure_discards_results:
  "(isl r1 \<or> isl r2 \<or> isl r3 \<longrightarrow>
      loadData_settle r1 r2 r3 s =
        s\<lparr>loading := False, error := Some ''Failed to load data. Is the backend running?''\<rparr> \<and>
      dashboard (loadData r1 r2 r3 s) = dashboard s \<and>
      briefing (loadData r1 r2 r3 s) = briefing s \<and>
      urgentItems (loadData r1 r2 r3 s) = urgentItems s \<and>
      timers (loadData r1 r2 r3 s) = timers s \<and>
      ops_render (loadData r1 r2 r3 s) = ErrorPanel ''Failed to load data. Is the backend running?'') \<and>
   (isl q1 \<or> isl q2 \<longrightarrow>
      fetchData_settle q1 q2 v = v\<lparr>loading := False\<rparr> \<and>
      fetchData q1 q2 v = v\<lparr>loading := False\<rparr> \<and>
      analysis (fetchData q1 q2 v) = analysis v \<and>
      opportunities (fetchData q1 q2 v) = opportunities v)"
  by (auto simp: loadData_settle_def loadData_def loadData_start_def ops_render_def
        fetchData_settle_def fetchData_def fetchData_start_def isl_def split: sum.splits)

text \<open>
  An instance: the briefing request fails while the other two succeed, on a page that
  already shows one urgent item; the negotiations request fails while the analysis
  succeeds.
\<close>

theorem promise_all_failure_discards_results_witness:
  "isl (Inl ''503'' :: string + DayBriefing option) \<and>
   urgentItems (loadData (Inr ''march'') (Inl ''503'' :: string + DayBriefing option)
       (Inr [\<lparr>item_id = ''u7''\<rparr>, \<lparr>item_id = ''u8''\<rparr>])
       ((ops_page_init :: (string, DayBriefing, UrgentWorkItem) ops_page)
          \<lparr>loading := False, urgentItems := [\<lparr>item_id = ''u1''\<rparr>]\<rparr>)) = [\<lparr>item_id = ''u1''\<rparr>] \<and>
   dashboard (loadData (Inr ''march'') (Inl ''503'' :: string + DayBriefing option)
       (Inr [\<lparr>item_id = ''u7''\<rparr>, \<lparr>item_id = ''u8''\<rparr>])
       ((ops_page_init :: (string, DayBriefing, UrgentWorkItem) ops_page)
          \<lparr>loading := False, urgentItems := [\<lparr>item_id = ''u1''\<rparr>]\<rparr>)) = None \<and>
   ops_render (loadData (Inr ''march'') (Inl ''503'' :: string + DayBriefing option)
       (Inr [\<lparr>item_id = ''u7''\<rparr>, \<lparr>item_id = ''u8''\<rparr>])
       ((ops_page_init :: (string, DayBriefing, UrgentWorkItem) ops_page)
          \<lparr>loading := False, urgentItems := [\<lparr>item_id = ''u1''\<rparr>]\<rparr>))
     = ErrorPanel ''Failed to load data. Is the backend running?'' \<and>
   isl (Inl ''timeout'' :: string + string list) \<and>
   analysis (fetchData (Inr ''spend'') (Inl ''timeout'' :: string + string list)
       (vendors_page_init :: (string, string) vendors_page)) = None \<and>
   opportunities (fetchData (Inr ''spend'') (Inl ''timeout'' :: string + string list)
       (vendors_page_init :: (string, string) vendors_page)) = []"
proof -
  let ?s = "(ops_page_init :: (string, DayBriefing, UrgentWorkItem) ops_page)
              \<lparr>loading := False, urgentItems := [\<lparr>item_id = ''u1''\<rparr>]\<rparr>"
  let ?v = "vendors_page_init :: (string, string) vendors_page"
  have pre: "urgentItems ?s = [\<lparr>item_id = ''u1''\<rparr>]" "dashboard ?s = None"
            "analysis ?v = None" "opportunities ?v = []"
    by (simp_all add: ops_page_init_def vendors_page_init_def)
  from promise_all_failure_discards_results
    [of "Inr ''march''" "Inl ''503'' :: string + DayBriefing option"
        "Inr [\<lparr>item_id = ''u7''\<rparr>, \<lparr>item_id = ''u8''\<rparr>]" ?s
        "Inr ''spend''" "Inl ''timeout'' :: string + string list" ?v]
  show ?thesis using pre by simp
qed

section \<open>The copied indicator\<close>

lemma foldl_copy_fire:
  "xs \<noteq> [] \<Longrightarrow> \<not> copied (foldl (\<lambda>s' p. copy_fire (snd p) s') s0 xs)"
proof (induction xs rule: rev_induct)
  case Nil
  then show ?case by simp
next
  case (snoc x xs)
  then show ?case by (cases "snd x") simp
qed

lemma sort_key_eq_Nil: "sort_key f xs = [] \<longleftrightarrow> xs = []"
  by (metis length_0_conv length_sort)

lemma wait_after_due: "2000 \<le> d \<Longrightarrow> \<not> copied (wait d (copyToClipboard t s))"
proof -
  assume d: "2000 \<le> d"
  let ?s1 = "copyToClipboard t s"
  let ?due = "filter (\<lambda>p. fst p \<le> clock ?s1 + d) (timers ?s1)"
  have "(clock s + 2000, ResetCopied) \<in> set ?due"
    using d by (simp add: copyToClipboard_def setTimeout_def)
  then have "?due \<noteq> []"
    by (metis empty_iff empty_set)
  then have "sort_key fst ?due \<noteq> []"
    by (simp add: sort_key_eq_Nil)
  then show ?thesis
    unfolding wait_def elapse_def Let_def by (rule foldl_copy_fire)
qed

lemma wait_before_due:
  "timers s = [] \<Longrightarrow> d < 2000 \<Longrightarrow> copied (wait d (copyToClipboard t s))"
  by (simp add: wait_def elapse_def copyToClipboard_def setTimeout_def Let_def)

text \<open>
  C8, as stated, fails for a second copy made within 2000 ms of the first: no copy cancels
  the reset an earlier copy has scheduled. After a copy at 0 ms and a copy at 1500 ms the
  indicator is already false at 2000 ms, 500 ms after the second copy.
\<close>

theorem copied_reverts_early_counterexample:
  "clock (wait 1500 (copyToClipboard ''first'' clipboard_page_init)) = 1500 \<and>
   copied (copyToClipboard ''second'' (wait 1500 (copyToClipboard ''first'' clipboard_page_init))) \<and>
   clock (wait 500 (copyToClipboard ''second''
      (wait 1500 (copyToClipboard ''first'' clipboard_page_init)))) = 2000 \<and>
   \<not> copied (wait 500 (copyToClipboard ''second''
      (wait 1500 (copyToClipboard ''first'' clipboard_page_init))))"
  by (simp add: wait_def elapse_def copyToClipboard_def setTimeout_def clipboard_page_init_def
        Let_def)

text \<open>
  C8, amended. Every copy writes the text, sets the indicator and queues one reset due
  2000 ms later. Once 2000 ms have passed since a copy the indicator is false. When no
  reset was pending at the time of the copy, the indicator is true throughout the
  2000 ms before that.
\<close>

theorem copied_indicator_resets:
  "copied (copyToClipboard t s) \<and>
   clipboard (copyToClipboard t s) = Some t \<and>
   timers (copyToClipboard t s) = timers s @ [(clock s + 2000, ResetCopied)] \<and>
   (2000 \<le> d \<longrightarrow> \<not> copied (wait d (copyToClipboard t s))) \<and>
   (timers s = [] \<and> d < 2000 \<longrightarrow> copied (wait d (copyToClipboard t s)))"
  using wait_after_due [of d t s] wait_before_due [of s d t]
  by (simp add: copyToClipboard_def setTimeout_def)

text \<open>An instance: one copy on a fresh page, seen after 1999 ms and after 2000 ms.\<close>

theorem copied_indicator_resets_witness:
  "copied (copyToClipboard ''Subject: rates'' clipboard_page_init) \<and>
   (2000 :: nat) \<le> 2000 \<and>
   \<not> copied (wait 2000 (copyToClipboard ''Subject: rates'' clipboard_page_init)) \<and>
   timers clipboard_page_init = [] \<and> (1999 :: nat) < 2000 \<and>
   copied (wait 1999 (copyToClipboard ''Subject: rates'' clipboard_page_init))"
  using copied_indicator_resets [of "''Subject: rates''" clipboard_page_init 2000]
        copied_indicator_resets [of "''Subject: rates''" clipboard_page_init 1999]
  by (simp add: clipboard_page_init_def)

section \<open>The invoice detail parsers\<close>

text \<open>
  C9. Whatever \<^verbatim>\<open>JSON.parse\<close> does on the input, \<^verbatim>\<open>parseErrors\<close> and \<^verbatim>\<open>parseItems\<close>
  return a list and raise nothing: the empty list when the input is not valid JSON or
  its value is not an array, and the array's elements when it is one.
\<close>

theorem parsers_total:
  "(\<exists>xs. parseErrors JSON_parse s = Inr xs) \<and>
   (\<exists>xs. parseItems JSON_parse s = Inr xs) \<and>
   (\<forall>e. JSON_parse s = Inl e \<longrightarrow>
      parseErrors JSON_parse s = Inr [] \<and> parseItems JSON_parse s = Inr []) \<and>
   (\<forall>v. JSON_parse s = Inr v \<and> \<not> Array_isArray v \<longrightarrow>
      parseErrors JSON_parse s = Inr [] \<and> parseItems JSON_parse s = Inr []) \<and>
   (\<forall>xs. JSON_parse s = Inr (JArray xs) \<longrightarrow>
      parseErrors JSON_parse s = Inr xs \<and> parseItems JSON_parse s = Inr xs)"
  by (auto simp: parseErrors_def parseItems_def try_catch_def split: sum.splits)

text \<open>
  An instance for each case, over a parser that knows three inputs: a text that is not
  JSON, an object, and an array of two elements.
\<close>

theorem parsers_total_witness:
  "parseErrors
     (\<lambda>s. if s = ''{}'' then Inr (JObject [])
          else if s = ''[1,null]'' then Inr (JArray [JNumber (1 :: int), JNull])
          else Inl SyntaxError) ''oops'' = Inr [] \<and>
   parseItems
     (\<lambda>s. if s = ''{}'' then Inr (JObject [])
          else if s = ''[1,null]'' then Inr (JArray [JNumber (1 :: int), JNull])
          else Inl SyntaxError) ''{}'' = Inr [] \<and>
   parseItems
     (\<lambda>s. if s = ''{}'' then Inr (JObject [])
          else if s = ''[1,null]'' then Inr (JArray [JNumber (1 :: int), JNull])
          else Inl SyntaxError) ''[1,null]'' = Inr [JNumber 1, JNull]"
proof -
  let ?p = "\<lambda>s. if s = ''{}'' then Inr (JObject [])
          else if s = ''[1,null]'' then Inr (JArray [JNumber (1 :: int), JNull])
          else Inl SyntaxError"
  have p: "?p ''oops'' = Inl SyntaxError" "?p ''{}'' = Inr (JObject [])"
          "?p ''[1,null]'' = Inr (JArray [JNumber 1, JNull])"
          "\<not> Array_isArray (JObject [] :: int json)"
    by simp_all
  have a: "parseErrors ?p ''oops'' = Inr []"
    using parsers_total [of ?p "''oops''"] p(1) by blast
  have b: "parseItems ?p ''{}'' = Inr []"
    using parsers_total [of ?p "''{}''"] p(2,4) by blast
  have c: "parseItems ?p ''[1,null]'' = Inr [JNumber 1, JNull]"
    using parsers_total [of ?p "''[1,null]''"] p(3) by blast
  show ?thesis by (intro conjI a b c)
qed

section \<open>The invoices table filter\<close>

text \<open>
  C10. The filter keeps, in order, the invoices for which the lower-cased search text
  occurs in the lower-cased invoice number or vendor name, whichever is present, and
  whose status equals the status filter or the filter is \<^verbatim>\<open>all\<close>. An invoice with
  neither an invoice number nor a vendor name is never kept, whatever the search text,
  the empty one included.
\<close>

theorem filteredInvoices_conjunction:
  "filteredInvoices lower invoices search statusFilter =
     filter (\<lambda>i.
        ((\<exists>n. invoice_number i = Some n \<and> str_includes (lower n) (lower search)) \<or>
         (\<exists>v. vendor_name i = Some v \<and> str_includes (lower v) (lower search))) \<and>
        (statusFilter = ''all'' \<or> status i = statusFilter)) invoices \<and>
   (invoice_number x = None \<and> vendor_name x = None \<longrightarrow>
      x \<notin> set (filteredInvoices lower invoices search statusFilter))"
  by (auto simp: filteredInvoices_def Let_def js_or_def js_and_def truthy_def
        intro!: filter_cong split: option.splits)

text \<open>
  An instance: the empty search keeps the two named invoices and drops the one without
  number and name; the search \<^verbatim>\<open>ACME\<close> finds \<^verbatim>\<open>Acme Traders\<close>; the status filter
  \<^verbatim>\<open>needs_review\<close> keeps the one invoice of that status.
\<close>

theorem filteredInvoices_conjunction_witness:
  "invoice_number \<lparr>invoice_number = None, vendor_name = None, status = ''valid''\<rparr> = None \<and>
   vendor_name \<lparr>invoice_number = None, vendor_name = None, status = ''valid''\<rparr> = None \<and>
   \<lparr>invoice_number = None, vendor_name = None, status = ''valid''\<rparr> \<notin> set (filteredInvoices ascii_lower
     [\<lparr>invoice_number = Some ''INV-001'', vendor_name = Some ''Acme Traders'', status = ''valid''\<rparr>,
      \<lparr>invoice_number = None, vendor_name = None, status = ''valid''\<rparr>,
      \<lparr>invoice_number = Some ''INV-002'', vendor_name = None, status = ''needs_review''\<rparr>]
     [] ''all'') \<and>
   filteredInvoices ascii_lower
     [\<lparr>invoice_number = Some ''INV-001'', vendor_name = Some ''Acme Traders'', status = ''valid''\<rparr>,
      \<lparr>invoice_number = None, vendor_name = None, status = ''valid''\<rparr>,
      \<lparr>invoice_number = Some ''INV-002'', vendor_name = None, status = ''needs_review''\<rparr>]
     [] ''all''
     = [\<lparr>invoice_number = Some ''INV-001'', vendor_name = Some ''Acme Traders'', status = ''valid''\<rparr>,
        \<lparr>invoice_number = Some ''INV-002'', vendor_name = None, status = ''needs_review''\<rparr>] \<and>
   filteredInvoices ascii_lower
     [\<lparr>invoice_number = Some ''INV-001'', vendor_name = Some ''Acme Traders'', status = ''valid''\<rparr>,
      \<lparr>invoice_number = None, vendor_name = None, status = ''valid''\<rparr>,
      \<lparr>invoice_number = Some ''INV-002'', vendor_name = None, status = ''needs_review''\<rparr>]
     ''ACME'' ''all''
     = [\<lparr>invoice_number = Some ''INV-001'', vendor_name = Some ''Acme Traders'', status = ''valid''\<rparr>] \<and>
   filteredInvoices ascii_lower
     [\<lparr>invoice_number = Some ''INV-001'', vendor_name = Some ''Acme Traders'', status = ''valid''\<rparr>,
      \<lparr>invoice_number = None, vendor_name = None, status = ''valid''\<rparr>,
      \<lparr>invoice_number = Some ''INV-002'', vendor_name = None, status = ''needs_review''\<rparr>]
     ''inv'' ''needs_review''
     = [\<lparr>invoice_number = Some ''INV-002'', vendor_name = None, status = ''needs_review''\<rparr>]"
proof -
  let ?x = "\<lparr>invoice_number = None, vendor_name = None, status = ''valid''\<rparr>"
  let ?l = "[\<lparr>invoice_number = Some ''INV-001'', vendor_name = Some ''Acme Traders'', status = ''valid''\<rparr>,
      ?x, \<lparr>invoice_number = Some ''INV-002'', vendor_name = None, status = ''needs_review''\<rparr>]"
  have a: "invoice_number ?x = None" "vendor_name ?x = None"
    by simp_all
  have b: "?x \<notin> set (filteredInvoices ascii_lower ?l [] ''all'')"
    using filteredInvoices_conjunction [of ascii_lower ?l "[]" "''all''" ?x] a by blast
  have c: "filteredInvoices ascii_lower ?l [] ''all''
     = [\<lparr>invoice_number = Some ''INV-001'', vendor_name = Some ''Acme Traders'', status = ''valid''\<rparr>,
        \<lparr>invoice_number = Some ''INV-002'', vendor_name = None, status = ''needs_review''\<rparr>]"
    by code_simp
  have d: "filteredInvoices ascii_lower ?l ''ACME'' ''all''
     = [\<lparr>invoice_number = Some ''INV-001'', vendor_name = Some ''Acme Traders'', status = ''valid''\<rparr>]"
    by code_simp
  have e: "filteredInvoices ascii_lower ?l ''inv'' ''needs_review''
     = [\<lparr>invoice_number = Some ''INV-002'', vendor_name = None, status = ''needs_review''\<rparr>]"
    by code_simp
  show ?thesis by (intro conjI a b c d e)
qed

end
